theory Spec2Isabelle
  imports Complex_Main
begin

section \<open>JavaScript values\<close>

text \<open>
  A value that is either a string or \<^verbatim>\<open>undefined\<close> is a \<open>string option\<close>. JavaScript
  treats \<^verbatim>\<open>undefined\<close> and the empty string as falsy, every other string as truthy;
  \<^verbatim>\<open>a || b\<close> is \<open>a\<close> when \<open>a\<close> is truthy and \<open>b\<close> otherwise.
\<close>

definition truthy :: "string option \<Rightarrow> bool" where
  "truthy v = (case v of None \<Rightarrow> False | Some s \<Rightarrow> s \<noteq> [])"

definition js_or :: "string option \<Rightarrow> string option \<Rightarrow> string option" where
  "js_or a b = (if truthy a then a else b)"

definition js_or_default :: "string option \<Rightarrow> string \<Rightarrow> string" where
  "js_or_default a d = (case a of None \<Rightarrow> d | Some s \<Rightarrow> if s \<noteq> [] then s else d)"

section \<open>Process environment and requests\<close>

record process_env =
  NODE_ENV :: "string option"
  DEV_USER_ID :: "string option"
  ANTHROPIC_API_KEY :: "string option"
  OPENAI_API_KEY :: "string option"

text \<open>
  The parts of an Express request that the middleware and the chat routes read:
  \<^verbatim>\<open>req.session?.userId\<close>, \<^verbatim>\<open>req.auth?.userId\<close>, \<^verbatim>\<open>req.headers['x-user-id']\<close>,
  \<^verbatim>\<open>req.query.userId\<close>, the three fields of the JSON body of \<^verbatim>\<open>POST /api/chat\<close>, and
  \<^verbatim>\<open>req.params.id\<close>. A field that is present is a string; \<open>None\<close> is a field that is
  absent (\<^verbatim>\<open>undefined\<close>).
\<close>

record request =
  session_userId :: "string option"
  auth_userId :: "string option"
  header_x_user_id :: "string option"
  query_userId :: "string option"
  body_message :: "string option"
  body_conversationId :: "string option"
  body_model :: "string option"
  params_id :: string

section \<open>The store (server/db)\<close>

text \<open>
  The tables of the schema, each a list of rows in insertion order. Timestamps are the
  store's \<^verbatim>\<open>CURRENT_TIMESTAMP\<close> at the statement that writes the row, as a number.
  Whether the engine enforces the foreign keys of the schema is a setting of the store.
  A statement fails only on a constraint of the schema; failures of the engine itself
  (input/output, a lost connection) are left out.
\<close>

record user_row =
  user_id :: string
  user_email :: string
  user_name :: "string option"

record conversation_row =
  conv_id :: string
  conv_user_id :: string
  conv_title :: string
  conv_created_at :: nat
  conv_updated_at :: nat

record message_row =
  msg_id :: string
  msg_conversation_id :: string
  msg_role :: string
  msg_content :: string
  msg_model :: "string option"
  msg_tokens_used :: nat
  msg_cost :: real
  msg_created_at :: nat

record database =
  foreign_keys :: bool
  users_table :: "user_row list"
  conversations_table :: "conversation_row list"
  messages_table :: "message_row list"

datatype storage_error = NotNullViolation | PrimaryKeyViolation | ForeignKeyViolation

section \<open>Responses\<close>

record chat_message =
  role :: string
  content :: string

record usage =
  inputTokens :: nat
  outputTokens :: nat
  totalTokens :: nat
  cost :: real

record chat_result =
  result_content :: string
  result_model :: string
  result_usage :: usage

record conversation_summary =
  summary_id :: string
  summary_title :: string
  summary_created_at :: nat
  summary_updated_at :: nat

record message_view =
  view_id :: string
  view_role :: string
  view_content :: string
  view_model :: "string option"
  view_created_at :: nat

datatype json =
    ErrorBody string
  | ChatBody string string string usage
  | ConversationsBody "conversation_summary list"
  | ConversationBody conversation_row "message_view list"

datatype response = Response (status: nat) (body: json)

section \<open>Authentication middleware (flexibleAuth)\<close>

text \<open>
  The middleware either responds itself or calls \<^verbatim>\<open>next()\<close> after setting
  \<^verbatim>\<open>req.userId\<close>.
\<close>

datatype middleware_result = Responded response | Next "string option"

definition flexibleAuth :: "process_env \<Rightarrow> request \<Rightarrow> middleware_result" where
  "flexibleAuth penv req =
     (let userId = js_or (js_or (js_or (session_userId req) (auth_userId req))
                           (header_x_user_id req)) (query_userId req)
      in if \<not> truthy userId \<and> NODE_ENV penv = Some ''production''
         then Responded (Response 401 (ErrorBody ''Unauthorized''))
         else if \<not> truthy userId \<and> NODE_ENV penv \<noteq> Some ''production''
         then Next (Some (js_or_default (DEV_USER_ID penv) ''dev-user''))
         else Next userId)"

section \<open>AI router (services/aiRouter)\<close>

record model_config =
  provider :: string
  modelId :: string
  maxTokens :: nat
  inputCostPer1k :: real
  outputCostPer1k :: real

definition MODELS :: "(string \<times> model_config) list" where
  "MODELS =
    [(''claude-3-5-sonnet'',
        \<lparr>provider = ''anthropic'', modelId = ''claude-3-5-sonnet-20241022'',
         maxTokens = 8192, inputCostPer1k = 0.003, outputCostPer1k = 0.015\<rparr>),
     (''claude-3-haiku'',
        \<lparr>provider = ''anthropic'', modelId = ''claude-3-haiku-20240307'',
         maxTokens = 4096, inputCostPer1k = 0.00025, outputCostPer1k = 0.00125\<rparr>),
     (''gpt-4o'',
        \<lparr>provider = ''openai'', modelId = ''gpt-4o'',
         maxTokens = 4096, inputCostPer1k = 0.005, outputCostPer1k = 0.015\<rparr>),
     (''gpt-4o-mini'',
        \<lparr>provider = ''openai'', modelId = ''gpt-4o-mini'',
         maxTokens = 4096, inputCostPer1k = 0.00015, outputCostPer1k = 0.0006\<rparr>)]"

text \<open>
  \<^verbatim>\<open>MODELS[model]\<close> is a property read on an object literal: an own property gives
  its configuration; a name that \<^verbatim>\<open>Object.prototype\<close> defines gives the inherited
  value (a function, or the prototype object for \<^verbatim>\<open>__proto__\<close>), which is truthy
  and has no \<^verbatim>\<open>provider\<close> property; any other name gives \<^verbatim>\<open>undefined\<close>.
\<close>

datatype 'a js_property = Absent | Own 'a | Inherited

definition object_prototype_properties :: "string list" where
  "object_prototype_properties =
    [''constructor'', ''__defineGetter__'', ''__defineSetter__'', ''hasOwnProperty'',
     ''__lookupGetter__'', ''__lookupSetter__'', ''isPrototypeOf'',
     ''propertyIsEnumerable'', ''toString'', ''valueOf'', ''__proto__'',
     ''toLocaleString'']"

definition MODELS_get :: "string \<Rightarrow> model_config js_property" where
  "MODELS_get model =
     (case map_of MODELS model of
        Some modelConfig \<Rightarrow> Own modelConfig
      | None \<Rightarrow> if model \<in> set object_prototype_properties then Inherited else Absent)"

subsection \<open>The vendors' APIs\<close>

record anthropic_request =
  areq_model :: string
  areq_max_tokens :: nat
  areq_system :: string
  areq_messages :: "chat_message list"

record anthropic_usage =
  input_tokens :: "nat option"
  output_tokens :: "nat option"

record anthropic_response =
  aresp_usage :: "anthropic_usage option"
  aresp_content :: "string option list"

record openai_request =
  oreq_model :: string
  oreq_max_tokens :: nat
  oreq_messages :: "chat_message list"

record openai_usage =
  prompt_tokens :: "nat option"
  completion_tokens :: "nat option"

record openai_response =
  oresp_usage :: "openai_usage option"
  oresp_choices :: "string option option list"

text \<open>
  An Anthropic response carries its content blocks, each with an optional
  \<^verbatim>\<open>text\<close>; an OpenAI response carries its choices, each with an optional
  \<^verbatim>\<open>message\<close> that has an optional \<^verbatim>\<open>content\<close>. The network is a pair of
  functions from the request sent to what the SDK call yields: \<open>Inl\<close> the message of
  the error it throws, \<open>Inr\<close> the response.
\<close>

record vendors =
  anthropic_messages_create :: "anthropic_request \<Rightarrow> string + anthropic_response"
  openai_chat_completions_create :: "openai_request \<Rightarrow> string + openai_response"

text \<open>
  The module-level clients: built from the API key when the variable is truthy,
  \<^verbatim>\<open>null\<close> otherwise.
\<close>

definition anthropic :: "process_env \<Rightarrow> string option" where
  "anthropic penv = (if truthy (ANTHROPIC_API_KEY penv) then ANTHROPIC_API_KEY penv else None)"

definition openai :: "process_env \<Rightarrow> string option" where
  "openai penv = (if truthy (OPENAI_API_KEY penv) then OPENAI_API_KEY penv else None)"

text \<open>
  What a call of the router does besides returning: entering a provider adapter (with
  the message list it was given) and sending a request to a vendor.
\<close>

datatype event =
    AdapterInvoked string "chat_message list"
  | AnthropicCall anthropic_request
  | OpenAICall openai_request

text \<open>
  The errors thrown, one constructor for each \<^verbatim>\<open>throw\<close> and one for an error of the
  SDK call: \<open>UnknownModel m\<close> is \<^verbatim>\<open>Unknown model: m\<close>, \<open>UnsupportedProvider p\<close> is
  \<^verbatim>\<open>Unsupported provider: p\<close> (with \<open>None\<close> printed as \<^verbatim>\<open>undefined\<close>),
  \<open>ApiKeyNotConfigured v\<close> is \<^verbatim>\<open>v API key not configured\<close>.
\<close>

datatype chat_error =
    UnknownModel string
  | UnsupportedProvider "string option"
  | ApiKeyNotConfigured string
  | ProviderError string

definition or_zero :: "nat option \<Rightarrow> nat" where
  "or_zero n = (case n of None \<Rightarrow> 0 | Some k \<Rightarrow> k)"

definition chatAnthropic ::
  "process_env \<Rightarrow> vendors \<Rightarrow> model_config \<Rightarrow> chat_message list \<Rightarrow> string option
     \<Rightarrow> event list \<times> (chat_error + chat_result)" where
  "chatAnthropic penv net modelConfig messages systemPrompt =
     (case anthropic penv of
        None \<Rightarrow> ([AdapterInvoked ''anthropic'' messages], Inl (ApiKeyNotConfigured ''Anthropic''))
      | Some key \<Rightarrow>
          let request =
                \<lparr>areq_model = modelId modelConfig,
                 areq_max_tokens = maxTokens modelConfig,
                 areq_system = js_or_default systemPrompt ''You are a helpful assistant.'',
                 areq_messages =
                   map (\<lambda>m. \<lparr>role = (if role m = ''user'' then ''user'' else ''assistant''),
                              content = content m\<rparr>) messages\<rparr>;
              events = [AdapterInvoked ''anthropic'' messages, AnthropicCall request]
          in case anthropic_messages_create net request of
               Inl e \<Rightarrow> (events, Inl (ProviderError e))
             | Inr response \<Rightarrow>
                 let inputTokens' =
                       (case aresp_usage response of None \<Rightarrow> 0
                        | Some u \<Rightarrow> or_zero (input_tokens u));
                     outputTokens' =
                       (case aresp_usage response of None \<Rightarrow> 0
                        | Some u \<Rightarrow> or_zero (output_tokens u));
                     cost' = (real inputTokens' / 1000 * inputCostPer1k modelConfig)
                          + (real outputTokens' / 1000 * outputCostPer1k modelConfig)
                 in (events,
                     Inr \<lparr>result_content =
                            (case aresp_content response of [] \<Rightarrow> []
                             | block # _ \<Rightarrow> js_or_default block []),
                          result_model = modelId modelConfig,
                          result_usage =
                            \<lparr>inputTokens = inputTokens', outputTokens = outputTokens',
                             totalTokens = inputTokens' + outputTokens', cost = cost'\<rparr>\<rparr>))"

definition chatOpenAI ::
  "process_env \<Rightarrow> vendors \<Rightarrow> model_config \<Rightarrow> chat_message list \<Rightarrow> string option
     \<Rightarrow> event list \<times> (chat_error + chat_result)" where
  "chatOpenAI penv net modelConfig messages systemPrompt =
     (case openai penv of
        None \<Rightarrow> ([AdapterInvoked ''openai'' messages], Inl (ApiKeyNotConfigured ''OpenAI''))
      | Some key \<Rightarrow>
          let formattedMessages =
                (case systemPrompt of
                   None \<Rightarrow> []
                 | Some p \<Rightarrow> if p \<noteq> [] then [\<lparr>role = ''system'', content = p\<rparr>] else [])
                @ map (\<lambda>m. \<lparr>role = role m, content = content m\<rparr>) messages;
              request =
                \<lparr>oreq_model = modelId modelConfig,
                 oreq_max_tokens = maxTokens modelConfig,
                 oreq_messages = formattedMessages\<rparr>;
              events = [AdapterInvoked ''openai'' messages, OpenAICall request]
          in case openai_chat_completions_create net request of
               Inl e \<Rightarrow> (events, Inl (ProviderError e))
             | Inr response \<Rightarrow>
                 let inputTokens' =
                       (case oresp_usage response of None \<Rightarrow> 0
                        | Some u \<Rightarrow> or_zero (prompt_tokens u));
                     outputTokens' =
                       (case oresp_usage response of None \<Rightarrow> 0
                        | Some u \<Rightarrow> or_zero (completion_tokens u));
                     cost' = (real inputTokens' / 1000 * inputCostPer1k modelConfig)
                          + (real outputTokens' / 1000 * outputCostPer1k modelConfig)
                 in (events,
                     Inr \<lparr>result_content =
                            (case oresp_choices response of [] \<Rightarrow> []
                             | choice # _ \<Rightarrow>
                                 (case choice of None \<Rightarrow> []
                                  | Some c \<Rightarrow> js_or_default c [])),
                          result_model = modelId modelConfig,
                          result_usage =
                            \<lparr>inputTokens = inputTokens', outputTokens = outputTokens',
                             totalTokens = inputTokens' + outputTokens', cost = cost'\<rparr>\<rparr>))"

definition chat ::
  "process_env \<Rightarrow> vendors \<Rightarrow> string option \<Rightarrow> chat_message list \<Rightarrow> string option
     \<Rightarrow> event list \<times> (chat_error + chat_result)" where
  "chat penv net model_opt messages systemPrompt =
     (let model = (case model_opt of None \<Rightarrow> ''claude-3-5-sonnet'' | Some m \<Rightarrow> m)
      in case MODELS_get model of
           Absent \<Rightarrow> ([], Inl (UnknownModel model))
         | Inherited \<Rightarrow> ([], Inl (UnsupportedProvider None))
         | Own modelConfig \<Rightarrow>
             if provider modelConfig = ''anthropic''
             then chatAnthropic penv net modelConfig messages systemPrompt
             else if provider modelConfig = ''openai''
             then chatOpenAI penv net modelConfig messages systemPrompt
             else ([], Inl (UnsupportedProvider (Some (provider modelConfig)))))"

definition getAvailableModels :: "process_env \<Rightarrow> string list" where
  "getAvailableModels penv =
     (if anthropic penv \<noteq> None then [''claude-3-5-sonnet'', ''claude-3-haiku''] else [])
     @ (if openai penv \<noteq> None then [''gpt-4o'', ''gpt-4o-mini''] else [])"

section \<open>Statements on the store\<close>

text \<open>
  \<^verbatim>\<open>INSERT INTO conversations (id, user_id, title)\<close>: both timestamps take their
  default, the current time. The statement fails on a missing user id (NOT NULL), on an
  id already in the table (PRIMARY KEY) and, when the engine enforces foreign keys, on a
  user id that is not in \<^verbatim>\<open>users\<close>. A failed statement leaves the store as it was.
\<close>

definition insert_conversation ::
  "database \<Rightarrow> nat \<Rightarrow> string \<Rightarrow> string option \<Rightarrow> string \<Rightarrow> storage_error + database" where
  "insert_conversation db now cid uid title =
     (case uid of
        None \<Rightarrow> Inl NotNullViolation
      | Some u \<Rightarrow>
          if cid \<in> set (map conv_id (conversations_table db)) then Inl PrimaryKeyViolation
          else if foreign_keys db \<and> u \<notin> set (map user_id (users_table db))
          then Inl ForeignKeyViolation
          else Inr (db\<lparr>conversations_table := conversations_table db @
                 [\<lparr>conv_id = cid, conv_user_id = u, conv_title = title,
                   conv_created_at = now, conv_updated_at = now\<rparr>]\<rparr>))"

text \<open>
  \<^verbatim>\<open>INSERT INTO messages (id, conversation_id, role, content [, model, tokens_used, cost])\<close>:
  the columns left out take their defaults (NULL, 0, 0) and \<^verbatim>\<open>created_at\<close> the current
  time. No other table is written.
\<close>

definition insert_message ::
  "database \<Rightarrow> nat \<Rightarrow> string \<Rightarrow> string \<Rightarrow> string \<Rightarrow> string
     \<Rightarrow> string option \<Rightarrow> nat option \<Rightarrow> real option \<Rightarrow> storage_error + database" where
  "insert_message db now mid cid r c m tokens cst =
     (if mid \<in> set (map msg_id (messages_table db)) then Inl PrimaryKeyViolation
      else if foreign_keys db \<and> cid \<notin> set (map conv_id (conversations_table db))
      then Inl ForeignKeyViolation
      else Inr (db\<lparr>messages_table := messages_table db @
             [\<lparr>msg_id = mid, msg_conversation_id = cid, msg_role = r, msg_content = c,
               msg_model = m,
               msg_tokens_used = (case tokens of None \<Rightarrow> 0 | Some n \<Rightarrow> n),
               msg_cost = (case cst of None \<Rightarrow> 0 | Some x \<Rightarrow> x),
               msg_created_at = now\<rparr>]\<rparr>))"

text \<open>
  The queries. \<^verbatim>\<open>ORDER BY created_at ASC\<close> is a stable sort of the matching rows on
  the timestamp (rows with equal timestamps stay in table order), \<^verbatim>\<open>ORDER BY
  updated_at DESC\<close> the same with the order reversed, \<^verbatim>\<open>LIMIT n\<close> keeps the first
  \<open>n\<close> rows of the ordered result, and \<^verbatim>\<open>.get\<close> returns the first matching row.
\<close>

definition conversation_messages :: "database \<Rightarrow> string \<Rightarrow> message_row list" where
  "conversation_messages db cid =
     sort_key msg_created_at (filter (\<lambda>m. msg_conversation_id m = cid) (messages_table db))"

definition select_history_rows :: "database \<Rightarrow> string \<Rightarrow> message_row list" where
  "select_history_rows db cid = take 20 (conversation_messages db cid)"

definition select_history :: "database \<Rightarrow> string \<Rightarrow> chat_message list" where
  "select_history db cid =
     map (\<lambda>m. \<lparr>role = msg_role m, content = msg_content m\<rparr>) (select_history_rows db cid)"

definition message_view_of :: "message_row \<Rightarrow> message_view" where
  "message_view_of m =
     \<lparr>view_id = msg_id m, view_role = msg_role m, view_content = msg_content m,
      view_model = msg_model m, view_created_at = msg_created_at m\<rparr>"

definition select_messages :: "database \<Rightarrow> string \<Rightarrow> message_view list" where
  "select_messages db cid = map message_view_of (conversation_messages db cid)"

definition select_conversation ::
  "database \<Rightarrow> string \<Rightarrow> string option \<Rightarrow> conversation_row option" where
  "select_conversation db cid uid =
     find (\<lambda>c. conv_id c = cid \<and> Some (conv_user_id c) = uid) (conversations_table db)"

definition select_conversations :: "database \<Rightarrow> string option \<Rightarrow> conversation_summary list" where
  "select_conversations db uid =
     map (\<lambda>c. \<lparr>summary_id = conv_id c, summary_title = conv_title c,
                summary_created_at = conv_created_at c,
                summary_updated_at = conv_updated_at c\<rparr>)
       (take 50 (sort_key (\<lambda>c. - int (conv_updated_at c))
          (filter (\<lambda>c. Some (conv_user_id c) = uid) (conversations_table db))))"

section \<open>Chat routes (routes/chatRoutes)\<close>

text \<open>
  \<open>generateId\<close> joins \<^verbatim>\<open>msg_\<close>, the clock in base 36 and the random digits. What
  the runtime and the store's clock contribute to one request is collected in a record:
  the two strings for each of the three calls of \<open>generateId\<close>, and the store's time
  at each of the three inserts.
\<close>

definition generateId :: "string \<times> string \<Rightarrow> string" where
  "generateId e = ''msg_'' @ fst e @ snd e"

record ambient =
  conv_id_entropy :: "string \<times> string"
  user_msg_id_entropy :: "string \<times> string"
  assistant_msg_id_entropy :: "string \<times> string"
  conv_insert_time :: nat
  user_msg_insert_time :: nat
  assistant_msg_insert_time :: nat

text \<open>
  A handler returns the store as it leaves it, the router's events and the response.
\<close>

record outcome =
  out_db :: database
  out_events :: "event list"
  out_response :: response

definition failed :: "database \<Rightarrow> event list \<Rightarrow> outcome" where
  "failed db evs =
     \<lparr>out_db = db, out_events = evs,
      out_response = Response 500 (ErrorBody ''Failed to get AI response'')\<rparr>"

definition create_conversation ::
  "ambient \<Rightarrow> string \<Rightarrow> string option \<Rightarrow> database \<Rightarrow> storage_error + string \<times> database" where
  "create_conversation amb message userId db =
     (let convId = generateId (conv_id_entropy amb)
      in case insert_conversation db (conv_insert_time amb) convId userId (take 50 message) of
           Inl err \<Rightarrow> Inl err
         | Inr db' \<Rightarrow> Inr (convId, db'))"

definition resolve_conversation ::
  "ambient \<Rightarrow> string option \<Rightarrow> string \<Rightarrow> string option \<Rightarrow> database
     \<Rightarrow> storage_error + string \<times> database" where
  "resolve_conversation amb conversationId message userId db =
     (case conversationId of
        None \<Rightarrow> create_conversation amb message userId db
      | Some convId \<Rightarrow>
          if convId = [] then create_conversation amb message userId db
          else Inr (convId, db))"

definition post_chat_handler ::
  "process_env \<Rightarrow> vendors \<Rightarrow> ambient \<Rightarrow> request \<Rightarrow> string option \<Rightarrow> database \<Rightarrow> outcome" where
  "post_chat_handler penv net amb req userId db =
     (if \<not> truthy (body_message req)
      then \<lparr>out_db = db, out_events = [],
            out_response = Response 400 (ErrorBody ''Message is required'')\<rparr>
      else
        let message = js_or_default (body_message req) [];
            model = (case body_model req of None \<Rightarrow> ''claude-3-5-sonnet'' | Some m \<Rightarrow> m)
        in case resolve_conversation amb (body_conversationId req) message userId db of
             Inl err \<Rightarrow> failed db []
           | Inr (convId, db1) \<Rightarrow>
               let history = select_history db1 convId;
                   messages = history @ [\<lparr>role = ''user'', content = message\<rparr>];
                   userMsgId = generateId (user_msg_id_entropy amb)
               in case insert_message db1 (user_msg_insert_time amb) userMsgId convId
                         ''user'' message None None None of
                    Inl err \<Rightarrow> failed db1 []
                  | Inr db2 \<Rightarrow>
                      (case chat penv net (Some model) messages
                              (Some ''You are a helpful AI assistant.'') of
                         (evs, Inl err) \<Rightarrow> failed db2 evs
                       | (evs, Inr response) \<Rightarrow>
                           let assistantMsgId = generateId (assistant_msg_id_entropy amb)
                           in case insert_message db2 (assistant_msg_insert_time amb)
                                     assistantMsgId convId ''assistant''
                                     (result_content response)
                                     (Some (result_model response))
                                     (Some (totalTokens (result_usage response)))
                                     (Some (cost (result_usage response))) of
                                Inl err \<Rightarrow> failed db2 evs
                              | Inr db3 \<Rightarrow>
                                  \<lparr>out_db = db3, out_events = evs,
                                   out_response =
                                     Response 200
                                       (ChatBody (result_content response) convId
                                          (result_model response)
                                          (result_usage response))\<rparr>))"

definition list_conversations_handler :: "string option \<Rightarrow> database \<Rightarrow> response" where
  "list_conversations_handler userId db =
     Response 200 (ConversationsBody (select_conversations db userId))"

definition get_conversation_handler :: "request \<Rightarrow> string option \<Rightarrow> database \<Rightarrow> response" where
  "get_conversation_handler req userId db =
     (case select_conversation db (params_id req) userId of
        None \<Rightarrow> Response 404 (ErrorBody ''Conversation not found'')
      | Some conversation \<Rightarrow>
          Response 200 (ConversationBody conversation (select_messages db (params_id req))))"

text \<open>The routes: each handler behind \<open>flexibleAuth\<close>.\<close>

definition post_chat ::
  "process_env \<Rightarrow> vendors \<Rightarrow> ambient \<Rightarrow> request \<Rightarrow> database \<Rightarrow> outcome" where
  "post_chat penv net amb req db =
     (case flexibleAuth penv req of
        Responded r \<Rightarrow> \<lparr>out_db = db, out_events = [], out_response = r\<rparr>
      | Next userId \<Rightarrow> post_chat_handler penv net amb req userId db)"

definition get_conversations :: "process_env \<Rightarrow> request \<Rightarrow> database \<Rightarrow> response" where
  "get_conversations penv req db =
     (case flexibleAuth penv req of
        Responded r \<Rightarrow> r
      | Next userId \<Rightarrow> list_conversations_handler userId db)"

definition get_conversation :: "process_env \<Rightarrow> request \<Rightarrow> database \<Rightarrow> response" where
  "get_conversation penv req db =
     (case flexibleAuth penv req of
        Responded r \<Rightarrow> r
      | Next userId \<Rightarrow> get_conversation_handler req userId db)"

section \<open>Appending a sequence of messages\<close>

text \<open>
  Appending messages to a conversation one after the other is the
  \<^verbatim>\<open>INSERT INTO messages\<close> statement of the chat handler run once for each, in
  order, stopping at the first that fails. \<open>stored_row\<close> is the row a new message
  becomes, \<open>returned_view\<close> the columns of it that the conversation route returns.
\<close>

record new_message =
  nm_time :: nat
  nm_id :: string
  nm_role :: string
  nm_content :: string
  nm_model :: "string option"
  nm_tokens :: "nat option"
  nm_cost :: "real option"

fun append_messages :: "database \<Rightarrow> string \<Rightarrow> new_message list \<Rightarrow> storage_error + database" where
  "append_messages db cid [] = Inr db"
| "append_messages db cid (m # ms) =
     (case insert_message db (nm_time m) (nm_id m) cid (nm_role m) (nm_content m)
             (nm_model m) (nm_tokens m) (nm_cost m) of
        Inl err \<Rightarrow> Inl err
      | Inr db' \<Rightarrow> append_messages db' cid ms)"

definition stored_row :: "string \<Rightarrow> new_message \<Rightarrow> message_row" where
  "stored_row cid m =
     \<lparr>msg_id = nm_id m, msg_conversation_id = cid, msg_role = nm_role m,
      msg_content = nm_content m, msg_model = nm_model m,
      msg_tokens_used = (case nm_tokens m of None \<Rightarrow> 0 | Some n \<Rightarrow> n),
      msg_cost = (case nm_cost m of None \<Rightarrow> 0 | Some x \<Rightarrow> x),
      msg_created_at = nm_time m\<rparr>"

definition returned_view :: "new_message \<Rightarrow> message_view" where
  "returned_view m =
     \<lparr>view_id = nm_id m, view_role = nm_role m, view_content = nm_content m,
      view_model = nm_model m, view_created_at = nm_time m\<rparr>"

section \<open>Example inputs\<close>

definition production :: process_env where
  "production =
     \<lparr>NODE_ENV = Some ''production'', DEV_USER_ID = None,
      ANTHROPIC_API_KEY = Some ''sk-ant-1'', OPENAI_API_KEY = None\<rparr>"

definition development :: process_env where
  "development =
     \<lparr>NODE_ENV = None, DEV_USER_ID = None,
      ANTHROPIC_API_KEY = Some ''sk-ant-1'', OPENAI_API_KEY = None\<rparr>"

definition anonymous :: request where
  "anonymous =
     \<lparr>session_userId = None, auth_userId = None, header_x_user_id = None,
      query_userId = None, body_message = None, body_conversationId = None,
      body_model = None, params_id = []\<rparr>"

definition vendors_up :: vendors where
  "vendors_up =
     \<lparr>anthropic_messages_create =
        (\<lambda>request. Inr \<lparr>aresp_usage = Some \<lparr>input_tokens = Some 1500, output_tokens = Some 200\<rparr>,
                          aresp_content = [Some ''Hello!'']\<rparr>),
      openai_chat_completions_create =
        (\<lambda>request. Inr \<lparr>oresp_usage = Some \<lparr>prompt_tokens = Some 1000, completion_tokens = Some 100\<rparr>,
                          oresp_choices = [Some (Some ''Hello!'')]\<rparr>)\<rparr>"

definition vendors_down :: vendors where
  "vendors_down =
     \<lparr>anthropic_messages_create = (\<lambda>request. Inl ''overloaded''),
      openai_chat_completions_create = (\<lambda>request. Inl ''overloaded'')\<rparr>"

definition alice_first :: conversation_row where
  "alice_first =
     \<lparr>conv_id = ''c1'', conv_user_id = ''alice'', conv_title = ''First'',
      conv_created_at = 1, conv_updated_at = 1\<rparr>"

definition alice_second :: conversation_row where
  "alice_second =
     \<lparr>conv_id = ''c2'', conv_user_id = ''alice'', conv_title = ''Second'',
      conv_created_at = 2, conv_updated_at = 2\<rparr>"

definition small_db :: database where
  "small_db =
     \<lparr>foreign_keys = True,
      users_table =
        [\<lparr>user_id = ''alice'', user_email = ''alice@example.org'', user_name = None\<rparr>,
         \<lparr>user_id = ''bob'', user_email = ''bob@example.org'', user_name = None\<rparr>],
      conversations_table = [alice_first, alice_second],
      messages_table =
        [\<lparr>msg_id = ''m1'', msg_conversation_id = ''c1'', msg_role = ''user'',
          msg_content = ''hi'', msg_model = None, msg_tokens_used = 0, msg_cost = 0,
          msg_created_at = 1\<rparr>,
         \<lparr>msg_id = ''m2'', msg_conversation_id = ''c1'', msg_role = ''assistant'',
          msg_content = ''hello'', msg_model = Some ''claude-3-haiku-20240307'',
          msg_tokens_used = 12, msg_cost = 0, msg_created_at = 1\<rparr>]\<rparr>"

text \<open>A store whose conversation \<^verbatim>\<open>c1\<close> already holds twenty messages, written at times 0 to 19.\<close>

definition earlier_rows :: "message_row list" where
  "earlier_rows =
     map (\<lambda>n. \<lparr>msg_id = ''old'' @ replicate n (CHR ''+''), msg_conversation_id = ''c1'',
                msg_role = ''user'', msg_content = ''earlier'', msg_model = None,
                msg_tokens_used = 0, msg_cost = 0, msg_created_at = n\<rparr>) [0..<20]"

definition long_db :: database where
  "long_db = small_db\<lparr>messages_table := earlier_rows\<rparr>"

text \<open>
  A store whose conversation \<^verbatim>\<open>c1\<close> holds those twenty messages and two more recent
  turns, written at times 20 and 21.
\<close>

definition recent_question :: message_row where
  "recent_question =
     \<lparr>msg_id = ''q20'', msg_conversation_id = ''c1'', msg_role = ''user'',
      msg_content = ''my name is Ada'', msg_model = None, msg_tokens_used = 0,
      msg_cost = 0, msg_created_at = 20\<rparr>"

definition recent_answer :: message_row where
  "recent_answer =
     \<lparr>msg_id = ''a21'', msg_conversation_id = ''c1'', msg_role = ''assistant'',
      msg_content = ''noted'', msg_model = Some ''claude-3-5-sonnet-20241022'',
      msg_tokens_used = 40, msg_cost = 0, msg_created_at = 21\<rparr>"

definition longer_db :: database where
  "longer_db =
     small_db\<lparr>messages_table := earlier_rows @ [recent_question, recent_answer]\<rparr>"

definition amb1 :: ambient where
  "amb1 =
     \<lparr>conv_id_entropy = (''lx1'', ''a1''), user_msg_id_entropy = (''lx1'', ''b2''),
      assistant_msg_id_entropy = (''lx2'', ''c3''), conv_insert_time = 30,
      user_msg_insert_time = 30, assistant_msg_insert_time = 31\<rparr>"

definition alice_says :: request where
  "alice_says =
     anonymous\<lparr>session_userId := Some ''alice'', body_message := Some ''ping'',
       body_conversationId := Some ''c1''\<rparr>"

definition bob_reads :: request where
  "bob_reads = anonymous\<lparr>session_userId := Some ''bob'', params_id := ''c1''\<rparr>"

definition three_messages :: "new_message list" where
  "three_messages =
     [\<lparr>nm_time = 5, nm_id = ''n1'', nm_role = ''user'', nm_content = ''one'',
       nm_model = None, nm_tokens = None, nm_cost = None\<rparr>,
      \<lparr>nm_time = 5, nm_id = ''n2'', nm_role = ''assistant'', nm_content = ''two'',
       nm_model = Some ''gpt-4o'', nm_tokens = Some 9, nm_cost = Some 0\<rparr>,
      \<lparr>nm_time = 7, nm_id = ''n3'', nm_role = ''user'', nm_content = ''three'',
       nm_model = None, nm_tokens = None, nm_cost = None\<rparr>]"

definition system_then_user :: "chat_message list" where
  "system_then_user =
     [\<lparr>role = ''system'', content = ''be brief''\<rparr>, \<lparr>role = ''user'', content = ''hi''\<rparr>]"

definition haiku_request :: anthropic_request where
  "haiku_request =
     \<lparr>areq_model = ''claude-3-haiku-20240307'', areq_max_tokens = 4096,
      areq_system = ''You are a helpful assistant.'',
      areq_messages =
        [\<lparr>role = ''assistant'', content = ''be brief''\<rparr>, \<lparr>role = ''user'', content = ''hi''\<rparr>]\<rparr>"

lemmas route_defs =
  post_chat_def post_chat_handler_def get_conversation_def get_conversation_handler_def
  get_conversations_def list_conversations_handler_def
  flexibleAuth_def js_or_def js_or_default_def truthy_def
  resolve_conversation_def create_conversation_def generateId_def failed_def
  insert_message_def insert_conversation_def
  select_history_def select_history_rows_def conversation_messages_def select_messages_def
  message_view_of_def select_conversation_def select_conversations_def
  chat_def MODELS_get_def MODELS_def object_prototype_properties_def
  chatAnthropic_def chatOpenAI_def anthropic_def openai_def or_zero_def Let_def

lemmas example_defs =
  production_def development_def anonymous_def vendors_up_def vendors_down_def
  alice_first_def alice_second_def small_db_def long_db_def earlier_rows_def
  recent_question_def recent_answer_def longer_db_def amb1_def
  alice_says_def bob_reads_def three_messages_def system_then_user_def haiku_request_def
  stored_row_def returned_view_def

section \<open>Facts about the store\<close>

lemma insert_message_tables:
  "insert_message db now mid cid r c m tokens cst = Inr db' \<Longrightarrow>
     messages_table db' = messages_table db @
       [\<lparr>msg_id = mid, msg_conversation_id = cid, msg_role = r, msg_content = c,
         msg_model = m,
         msg_tokens_used = (case tokens of None \<Rightarrow> 0 | Some n \<Rightarrow> n),
         msg_cost = (case cst of None \<Rightarrow> 0 | Some x \<Rightarrow> x),
         msg_created_at = now\<rparr>]
     \<and> conversations_table db' = conversations_table db
     \<and> users_table db' = users_table db
     \<and> foreign_keys db' = foreign_keys db
     \<and> mid \<notin> set (map msg_id (messages_table db))"
  by (auto simp add: insert_message_def split: if_splits)

text \<open>The primary key of \<^verbatim>\<open>conversations\<close> stays a key under the insert.\<close>

lemma insert_conversation_distinct:
  "distinct (map conv_id (conversations_table db)) \<Longrightarrow>
   insert_conversation db now cid uid title = Inr db' \<Longrightarrow>
   distinct (map conv_id (conversations_table db'))"
  by (auto simp add: insert_conversation_def split: option.splits if_splits)

lemma resolve_conversation_messages:
  "resolve_conversation amb conversationId message userId db = Inr (convId, db1)
   \<Longrightarrow> messages_table db1 = messages_table db"
  by (auto simp add: resolve_conversation_def create_conversation_def insert_conversation_def
      Let_def split: option.splits if_splits sum.splits)

lemma append_messages_tables:
  "append_messages db cid news = Inr db' \<Longrightarrow>
     messages_table db' = messages_table db @ map (stored_row cid) news
     \<and> conversations_table db' = conversations_table db"
proof (induction news arbitrary: db)
  case Nil
  then show ?case by simp
next
  case (Cons m ms)
  from Cons.prems obtain db1 where
    step: "insert_message db (nm_time m) (nm_id m) cid (nm_role m) (nm_content m)
             (nm_model m) (nm_tokens m) (nm_cost m) = Inr db1"
    and rest: "append_messages db1 cid ms = Inr db'"
    by (auto split: sum.splits)
  from insert_message_tables [OF step] Cons.IH [OF rest]
  show ?case by (simp add: stored_row_def)
qed

lemma conversation_messages_append:
  assumes "append_messages db cid news = Inr db'"
  shows "conversation_messages db' cid =
           sort_key msg_created_at
             (filter (\<lambda>m. msg_conversation_id m = cid) (messages_table db)
              @ map (stored_row cid) news)"
proof -
  have "filter (\<lambda>m. msg_conversation_id m = cid) (map (stored_row cid) news)
          = map (stored_row cid) news"
    by (induction news) (simp_all add: stored_row_def)
  with append_messages_tables [OF assms] show ?thesis
    by (simp add: conversation_messages_def)
qed

lemma find_none_other_owner:
  assumes "distinct (map conv_id cs)" "c \<in> set cs" "conv_id c = cid" "Some (conv_user_id c) \<noteq> uid"
  shows "find (\<lambda>c. conv_id c = cid \<and> Some (conv_user_id c) = uid) cs = None"
proof -
  have "\<And>c'. c' \<in> set cs \<Longrightarrow> conv_id c' = cid \<Longrightarrow> c' = c"
    using assms(1-3) by (metis distinct_map inj_onD)
  with assms(4) show ?thesis by (auto simp add: find_None_iff)
qed

section \<open>Facts about the router\<close>

lemma chatAnthropic_events:
  "AnthropicCall request \<in> set (fst (chatAnthropic penv net modelConfig messages systemPrompt))
   \<Longrightarrow> request = \<lparr>areq_model = modelId modelConfig,
                 areq_max_tokens = maxTokens modelConfig,
                 areq_system = js_or_default systemPrompt ''You are a helpful assistant.'',
                 areq_messages =
                   map (\<lambda>m. \<lparr>role = (if role m = ''user'' then ''user'' else ''assistant''),
                              content = content m\<rparr>) messages\<rparr>"
  by (auto simp add: chatAnthropic_def Let_def split: option.splits sum.splits)

lemma chatOpenAI_no_anthropic:
  "AnthropicCall request \<notin> set (fst (chatOpenAI penv net modelConfig messages systemPrompt))"
  by (auto simp add: chatOpenAI_def Let_def split: option.splits sum.splits)

lemma chatAnthropic_adapter:
  "AdapterInvoked p ms \<in> set (fst (chatAnthropic penv net modelConfig messages systemPrompt))
   \<Longrightarrow> ms = messages"
  by (auto simp add: chatAnthropic_def Let_def split: option.splits sum.splits)

lemma chatOpenAI_adapter:
  "AdapterInvoked p ms \<in> set (fst (chatOpenAI penv net modelConfig messages systemPrompt))
   \<Longrightarrow> ms = messages"
  by (auto simp add: chatOpenAI_def Let_def split: option.splits sum.splits)

lemma chat_events_from:
  "fst (chat penv net model_opt messages systemPrompt) = []
   \<or> (\<exists>modelConfig. fst (chat penv net model_opt messages systemPrompt)
          = fst (chatAnthropic penv net modelConfig messages systemPrompt))
   \<or> (\<exists>modelConfig. fst (chat penv net model_opt messages systemPrompt)
          = fst (chatOpenAI penv net modelConfig messages systemPrompt))"
  by (auto simp add: chat_def Let_def split: js_property.splits)

lemma chat_adapter:
  assumes "AdapterInvoked p ms \<in> set (fst (chat penv net model_opt messages systemPrompt))"
  shows "ms = messages"
  using assms chat_events_from [of penv net model_opt messages systemPrompt]
    chatAnthropic_adapter [of p ms penv net _ messages systemPrompt]
    chatOpenAI_adapter [of p ms penv net _ messages systemPrompt]
  by auto

lemma chat_anthropic_request:
  assumes "AnthropicCall request \<in> set (fst (chat penv net model_opt messages systemPrompt))"
  shows "areq_messages request =
           map (\<lambda>m. \<lparr>role = (if role m = ''user'' then ''user'' else ''assistant''),
                      content = content m\<rparr>) messages
         \<and> areq_system request = js_or_default systemPrompt ''You are a helpful assistant.''"
proof -
  from assms chat_events_from [of penv net model_opt messages systemPrompt]
    chatOpenAI_no_anthropic [of request penv net _ messages systemPrompt]
  obtain modelConfig where
    "AnthropicCall request \<in> set (fst (chatAnthropic penv net modelConfig messages systemPrompt))"
    by auto
  from chatAnthropic_events [OF this] show ?thesis by simp
qed

text \<open>
  A model name that is not a key of \<open>MODELS\<close> never reaches an adapter, and the call
  fails: as an unknown model when the property read gives \<^verbatim>\<open>undefined\<close>, as an
  unsupported provider when it gives a value inherited from \<^verbatim>\<open>Object.prototype\<close>.
\<close>

lemma chat_unregistered:
  assumes "map_of MODELS model = None"
  shows "fst (chat penv net (Some model) messages systemPrompt) = []
       \<and> snd (chat penv net (Some model) messages systemPrompt)
           = (if model \<in> set object_prototype_properties
              then Inl (UnsupportedProvider None) else Inl (UnknownModel model))"
  using assms by (simp add: chat_def MODELS_get_def)

lemma chat_unconfigured:
  assumes "map_of MODELS model = Some modelConfig"
    and "(provider modelConfig = ''anthropic'' \<and> \<not> truthy (ANTHROPIC_API_KEY penv))
       \<or> (provider modelConfig = ''openai'' \<and> \<not> truthy (OPENAI_API_KEY penv))"
  shows "chat penv net (Some model) messages systemPrompt =
           ([AdapterInvoked (provider modelConfig) messages],
            Inl (ApiKeyNotConfigured
                   (if provider modelConfig = ''anthropic'' then ''Anthropic'' else ''OpenAI'')))"
  using assms
  by (auto simp add: chat_def MODELS_get_def chatAnthropic_def chatOpenAI_def anthropic_def
      openai_def)

section \<open>Facts about the chat handler\<close>

lemma post_chat_handler_events:
  assumes "body_conversationId req = Some cid" "cid \<noteq> []"
    and "e \<in> set (out_events (post_chat_handler penv net amb req userId db))"
  shows "\<exists>message. body_message req = Some message \<and> message \<noteq> []
           \<and> generateId (user_msg_id_entropy amb) \<notin> set (map msg_id (messages_table db))
           \<and> e \<in> set (fst (chat penv net
                 (Some (case body_model req of None \<Rightarrow> ''claude-3-5-sonnet'' | Some m \<Rightarrow> m))
                 (select_history db cid @ [\<lparr>role = ''user'', content = message\<rparr>])
                 (Some ''You are a helpful AI assistant.'')))"
proof (cases "body_message req")
  case None
  with assms(3) show ?thesis by (simp add: post_chat_handler_def truthy_def)
next
  case (Some message)
  show ?thesis
  proof (cases "message = []")
    case True
    with Some assms(3) show ?thesis by (simp add: post_chat_handler_def truthy_def)
  next
    case False
    have r: "resolve_conversation amb (body_conversationId req) message userId db = Inr (cid, db)"
      using assms(1,2) by (simp add: resolve_conversation_def)
    show ?thesis
    proof (cases "insert_message db (user_msg_insert_time amb)
                    (generateId (user_msg_id_entropy amb)) cid ''user'' message None None None")
      case (Inl err)
      with Some False r assms(3) show ?thesis
        by (simp add: post_chat_handler_def truthy_def js_or_default_def failed_def)
    next
      case (Inr db2)
      from insert_message_tables [OF Inr]
      have fresh: "generateId (user_msg_id_entropy amb) \<notin> set (map msg_id (messages_table db))"
        by simp
      from Some False r Inr assms(3)
      have "e \<in> set (fst (chat penv net
                 (Some (case body_model req of None \<Rightarrow> ''claude-3-5-sonnet'' | Some m \<Rightarrow> m))
                 (select_history db cid @ [\<lparr>role = ''user'', content = message\<rparr>])
                 (Some ''You are a helpful AI assistant.'')))"
        by (auto simp add: post_chat_handler_def truthy_def js_or_default_def failed_def Let_def
            split: prod.splits sum.splits)
      with Some False fresh show ?thesis by simp
    qed
  qed
qed

lemma post_chat_handler_events_chat:
  assumes "e \<in> set (out_events (post_chat_handler penv net amb req userId db))"
  shows "\<exists>msgs. e \<in> set (fst (chat penv net
            (Some (case body_model req of None \<Rightarrow> ''claude-3-5-sonnet'' | Some m \<Rightarrow> m))
            msgs (Some ''You are a helpful AI assistant.'')))"
  using assms
  by (auto simp add: post_chat_handler_def failed_def Let_def
      split: if_splits sum.splits prod.splits) (metis fst_conv)+

lemma post_chat_handler_ok:
  assumes "status (out_response (post_chat_handler penv net amb req userId db)) = 200"
  shows "\<exists>msgs r. snd (chat penv net
            (Some (case body_model req of None \<Rightarrow> ''claude-3-5-sonnet'' | Some m \<Rightarrow> m))
            msgs (Some ''You are a helpful AI assistant.'')) = Inr r"
  using assms
  by (auto simp add: post_chat_handler_def failed_def Let_def
      split: if_splits sum.splits prod.splits) (metis snd_conv)+

lemma post_chat_handler_failed_dispatch:
  assumes "body_message req = Some message" and "message \<noteq> []"
    and "resolve_conversation amb (body_conversationId req) message userId db = Inr (convId, db1)"
    and "insert_message db1 (user_msg_insert_time amb) (generateId (user_msg_id_entropy amb))
           convId ''user'' message None None None = Inr db2"
    and "snd (chat penv net
           (Some (case body_model req of None \<Rightarrow> ''claude-3-5-sonnet'' | Some m \<Rightarrow> m))
           (select_history db1 convId @ [\<lparr>role = ''user'', content = message\<rparr>])
           (Some ''You are a helpful AI assistant.'')) = Inl err"
  shows "post_chat_handler penv net amb req userId db =
           failed db2 (fst (chat penv net
             (Some (case body_model req of None \<Rightarrow> ''claude-3-5-sonnet'' | Some m \<Rightarrow> m))
             (select_history db1 convId @ [\<lparr>role = ''user'', content = message\<rparr>])
             (Some ''You are a helpful AI assistant.'')))"
  using assms
  by (auto simp add: post_chat_handler_def truthy_def js_or_default_def Let_def split: prod.splits)

text \<open>
  A request that names a conversation writes nothing to \<^verbatim>\<open>conversations\<close>: no
  statement of the handler updates a row of that table.
\<close>

lemma post_chat_handler_conversations:
  assumes "body_conversationId req = Some cid" and "cid \<noteq> []"
  shows "conversations_table (out_db (post_chat_handler penv net amb req userId db))
           = conversations_table db"
proof -
  have keep: "insert_message d now mid c r t m k x = Inr d'
              \<Longrightarrow> conversations_table d' = conversations_table d" for d now mid c r t m k x d'
    using insert_message_tables by blast
  show ?thesis
    using assms
    by (auto simp add: post_chat_handler_def resolve_conversation_def failed_def Let_def
        split: sum.splits prod.splits dest!: keep)
qed

section \<open>History passed to the provider adapter\<close>

text \<open>
  What the handler does: for a request that names a conversation, the list a provider
  adapter is entered with is the stored messages of that conversation in ascending order
  of their timestamps, cut after the first 20, followed by the new user message. The
  rows were read before the new message was written, so its row is not among them.
\<close>

lemma post_chat_adapter_messages:
  assumes "body_conversationId req = Some cid" and "cid \<noteq> []"
    and "AdapterInvoked p msgs \<in> set (out_events (post_chat penv net amb req db))"
  shows "\<exists>message. body_message req = Some message
           \<and> msgs = map (\<lambda>m. \<lparr>role = msg_role m, content = msg_content m\<rparr>)
                      (take 20 (sort_key msg_created_at
                         (filter (\<lambda>m. msg_conversation_id m = cid) (messages_table db))))
                    @ [\<lparr>role = ''user'', content = message\<rparr>]
           \<and> generateId (user_msg_id_entropy amb) \<notin> set (map msg_id (messages_table db))"
proof (cases "flexibleAuth penv req")
  case (Responded r)
  with assms(3) show ?thesis by (simp add: post_chat_def)
next
  case (Next userId)
  with assms(3)
  have "AdapterInvoked p msgs \<in> set (out_events (post_chat_handler penv net amb req userId db))"
    by (simp add: post_chat_def)
  from post_chat_handler_events [OF assms(1) assms(2) this]
  obtain message where m: "body_message req = Some message"
    and fresh: "generateId (user_msg_id_entropy amb) \<notin> set (map msg_id (messages_table db))"
    and ev: "AdapterInvoked p msgs \<in> set (fst (chat penv net
                 (Some (case body_model req of None \<Rightarrow> ''claude-3-5-sonnet'' | Some m \<Rightarrow> m))
                 (select_history db cid @ [\<lparr>role = ''user'', content = message\<rparr>])
                 (Some ''You are a helpful AI assistant.'')))"
    by blast
  from chat_adapter [OF ev] m fresh show ?thesis
    by (simp add: select_history_def select_history_rows_def conversation_messages_def)
qed

text \<open>
  C1. The claim is that the list passed to the provider adapter is the stored messages
  of the conversation, oldest first and capped at 20 (the window of the last 20
  messages that is replayed to the model), with the new user message last. Here
  conversation \<^verbatim>\<open>c1\<close> holds 22 messages, written at times 0 to 21, and alice sends
  a new one at time 30. The adapter is entered with the 20 oldest messages and the new
  one: the two most recent stored turns, written at times 20 and 21, are in the store
  and not in the list.
\<close>

theorem post_chat_history_drops_recent:
  "AdapterInvoked ''anthropic''
      (select_history longer_db ''c1'' @ [\<lparr>role = ''user'', content = ''ping''\<rparr>])
     \<in> set (out_events (post_chat production vendors_up amb1 alice_says longer_db))
   \<and> status (out_response (post_chat production vendors_up amb1 alice_says longer_db)) = 200
   \<and> length (select_history longer_db ''c1'') = 20
   \<and> recent_question \<in> set (messages_table longer_db)
   \<and> recent_answer \<in> set (messages_table longer_db)
   \<and> \<lparr>role = msg_role recent_question, content = msg_content recent_question\<rparr>
       \<notin> set (select_history longer_db ''c1'' @ [\<lparr>role = ''user'', content = ''ping''\<rparr>])
   \<and> \<lparr>role = msg_role recent_answer, content = msg_content recent_answer\<rparr>
       \<notin> set (select_history longer_db ''c1'' @ [\<lparr>role = ''user'', content = ''ping''\<rparr>])"
  by (simp add: route_defs example_defs upt_rec)

section \<open>A failed dispatch and the user message\<close>

text \<open>
  What the handler does: when the dispatch fails after the user message was written,
  it answers 500 and the row of the user message stays in the store. The messages
  table is the one before the request with that row appended, and the full message
  list of the conversation contains it.
\<close>

lemma failed_dispatch_keeps_row:
  assumes "body_message req = Some message" and "message \<noteq> []"
    and "resolve_conversation amb (body_conversationId req) message userId db = Inr (convId, db1)"
    and "insert_message db1 (user_msg_insert_time amb) (generateId (user_msg_id_entropy amb))
           convId ''user'' message None None None = Inr db2"
    and "snd (chat penv net
           (Some (case body_model req of None \<Rightarrow> ''claude-3-5-sonnet'' | Some m \<Rightarrow> m))
           (select_history db1 convId @ [\<lparr>role = ''user'', content = message\<rparr>])
           (Some ''You are a helpful AI assistant.'')) = Inl err"
  shows "out_response (post_chat_handler penv net amb req userId db)
           = Response 500 (ErrorBody ''Failed to get AI response'')
       \<and> messages_table (out_db (post_chat_handler penv net amb req userId db))
           = messages_table db @
               [\<lparr>msg_id = generateId (user_msg_id_entropy amb), msg_conversation_id = convId,
                 msg_role = ''user'', msg_content = message, msg_model = None,
                 msg_tokens_used = 0, msg_cost = 0,
                 msg_created_at = user_msg_insert_time amb\<rparr>]
       \<and> \<lparr>view_id = generateId (user_msg_id_entropy amb), view_role = ''user'',
           view_content = message, view_model = None,
           view_created_at = user_msg_insert_time amb\<rparr>
           \<in> set (select_messages (out_db (post_chat_handler penv net amb req userId db)) convId)"
proof -
  let ?row = "\<lparr>msg_id = generateId (user_msg_id_entropy amb), msg_conversation_id = convId,
                 msg_role = ''user'', msg_content = message, msg_model = None,
                 msg_tokens_used = 0, msg_cost = 0,
                 msg_created_at = user_msg_insert_time amb\<rparr>"
  let ?out = "post_chat_handler penv net amb req userId db"
  have out: "out_db ?out = db2"
    and resp: "out_response ?out = Response 500 (ErrorBody ''Failed to get AI response'')"
    using post_chat_handler_failed_dispatch [OF assms] by (simp_all add: failed_def)
  have tbl: "messages_table db2 = messages_table db @ [?row]"
    using insert_message_tables [OF assms(4)] resolve_conversation_messages [OF assms(3)]
    by simp
  have rows: "set (conversation_messages db2 convId)
        = set (filter (\<lambda>m. msg_conversation_id m = convId) (messages_table db)) \<union> {?row}"
    by (simp add: conversation_messages_def tbl)
  have full: "\<lparr>view_id = generateId (user_msg_id_entropy amb), view_role = ''user'',
           view_content = message, view_model = None,
           view_created_at = user_msg_insert_time amb\<rparr> \<in> set (select_messages db2 convId)"
    unfolding select_messages_def set_map rows
    by (rule image_eqI [where x = ?row]) (simp_all add: message_view_of_def)
  show ?thesis using out resp tbl full by simp
qed

text \<open>
  C2. The claim is that after a failed dispatch the user message is still in the
  history of its conversation: a later history query contains it. Here conversation
  \<^verbatim>\<open>c1\<close> already holds twenty messages and the vendor rejects the call. The request
  is answered 500 and the row of the user message is in the store, but the history
  query on \<^verbatim>\<open>c1\<close> afterwards returns the twenty oldest rows, without the new
  message.
\<close>

theorem failed_dispatch_history_misses_message:
  "out_response (post_chat production vendors_down amb1 alice_says long_db)
     = Response 500 (ErrorBody ''Failed to get AI response'')
   \<and> snd (chat production vendors_down (Some ''claude-3-5-sonnet'')
            (select_history long_db ''c1'' @ [\<lparr>role = ''user'', content = ''ping''\<rparr>])
            (Some ''You are a helpful AI assistant.'')) = Inl (ProviderError ''overloaded'')
   \<and> \<lparr>msg_id = ''msg_lx1b2'', msg_conversation_id = ''c1'', msg_role = ''user'',
       msg_content = ''ping'', msg_model = None, msg_tokens_used = 0, msg_cost = 0,
       msg_created_at = 30\<rparr>
       \<in> set (messages_table (out_db (post_chat production vendors_down amb1 alice_says long_db)))
   \<and> \<lparr>role = ''user'', content = ''ping''\<rparr>
       \<notin> set (select_history
                (out_db (post_chat production vendors_down amb1 alice_says long_db)) ''c1'')"
  by (simp add: route_defs example_defs upt_rec)

section \<open>Cost of a response\<close>

text \<open>
  C3. Whenever the router returns a result for a model, that model has an entry in the
  registry, the cost returned is input tokens / 1000 times the entry's input price plus
  output tokens / 1000 times its output price, and the total is the sum of the two token
  counts. Nothing else of the vendor's response enters the cost. Numbers are exact
  here; the program evaluates the same expression in double precision.
\<close>

theorem chat_cost:
  assumes "chat penv net (Some model) messages systemPrompt = (evs, Inr r)"
  shows "\<exists>modelConfig. map_of MODELS model = Some modelConfig
           \<and> cost (result_usage r)
               = real (inputTokens (result_usage r)) / 1000 * inputCostPer1k modelConfig
               + real (outputTokens (result_usage r)) / 1000 * outputCostPer1k modelConfig
           \<and> totalTokens (result_usage r)
               = inputTokens (result_usage r) + outputTokens (result_usage r)"
  using assms
  by (auto simp add: chat_def MODELS_get_def chatAnthropic_def chatOpenAI_def Let_def
      split: option.splits if_splits sum.splits)

theorem chat_cost_witness:
  "\<exists>evs r. chat development vendors_up (Some ''claude-3-5-sonnet'') system_then_user None
              = (evs, Inr r)
      \<and> inputTokens (result_usage r) = 1500 \<and> outputTokens (result_usage r) = 200
      \<and> totalTokens (result_usage r) = 1700 \<and> cost (result_usage r) = 0.0075"
proof -
  obtain evs r where run: "chat development vendors_up (Some ''claude-3-5-sonnet'')
      system_then_user None = (evs, Inr r)"
    and tok: "inputTokens (result_usage r) = 1500" "outputTokens (result_usage r) = 200"
    by (simp add: route_defs example_defs)
  from chat_cost [OF run] tok
  have "totalTokens (result_usage r) = 1700 \<and> cost (result_usage r) = 0.0075"
    by (auto simp add: MODELS_def)
  with run tok show ?thesis by blast
qed

section \<open>A conversation of another user\<close>

text \<open>
  C4. For a caller whom the middleware lets through, a conversation that exists and
  belongs to another user gets the response of an id that does not exist: 404 with
  the same body, not 403. Ids are unique in the table (the primary key).
\<close>

theorem get_conversation_hides_existence:
  assumes "flexibleAuth penv req = Next userId"
    and "distinct (map conv_id (conversations_table db))"
    and "c \<in> set (conversations_table db)"
    and "conv_id c = params_id req"
    and "Some (conv_user_id c) \<noteq> userId"
    and "params_id req \<notin> set (map conv_id (conversations_table db'))"
  shows "get_conversation penv req db = Response 404 (ErrorBody ''Conversation not found'')
       \<and> get_conversation penv req db' = get_conversation penv req db
       \<and> status (get_conversation penv req db) \<noteq> 403"
proof -
  have a: "select_conversation db (params_id req) userId = None"
    unfolding select_conversation_def
    using find_none_other_owner [OF assms(2) assms(3) assms(4) assms(5)] .
  have b: "select_conversation db' (params_id req) userId = None"
    using assms(6) by (force simp add: select_conversation_def find_None_iff)
  show ?thesis
    using a b assms(1) by (simp add: get_conversation_def get_conversation_handler_def)
qed

theorem get_conversation_hides_existence_witness:
  "flexibleAuth production bob_reads = Next (Some ''bob'')
   \<and> alice_first \<in> set (conversations_table small_db)
   \<and> conv_user_id alice_first = ''alice''
   \<and> get_conversation production bob_reads small_db
       = Response 404 (ErrorBody ''Conversation not found'')
   \<and> get_conversation production bob_reads (small_db\<lparr>conversations_table := [alice_second]\<rparr>)
       = Response 404 (ErrorBody ''Conversation not found'')"
proof -
  have a: "flexibleAuth production bob_reads = Next (Some ''bob'')"
    by (simp add: route_defs example_defs)
  have b: "distinct (map conv_id (conversations_table small_db))"
    by (simp add: example_defs)
  have c: "alice_first \<in> set (conversations_table small_db)"
    by (simp add: example_defs)
  have d: "conv_id alice_first = params_id bob_reads"
    by (simp add: example_defs)
  have e: "Some (conv_user_id alice_first) \<noteq> Some ''bob''"
    by (simp add: example_defs)
  have f: "params_id bob_reads
             \<notin> set (map conv_id (conversations_table (small_db\<lparr>conversations_table := [alice_second]\<rparr>)))"
    by (simp add: example_defs)
  from get_conversation_hides_existence [OF a b c d e f] a c show ?thesis
    by (simp add: alice_first_def)
qed

section \<open>The updated timestamp of a conversation\<close>

text \<open>
  C5. The claim is that a message appended through the chat endpoint bumps the
  conversation's updated timestamp, so that the list shows the conversation that was
  active last first. Here alice owns \<^verbatim>\<open>c1\<close> (updated at 1) and \<^verbatim>\<open>c2\<close> (updated
  at 2) and sends a message to \<^verbatim>\<open>c1\<close> at time 30. The request succeeds, and the list
  afterwards still shows \<^verbatim>\<open>c2\<close> first and \<^verbatim>\<open>c1\<close> with its timestamp at 1.
\<close>

theorem post_chat_leaves_updated_at:
  "status (out_response (post_chat production vendors_up amb1 alice_says small_db)) = 200
   \<and> get_conversations production alice_says
        (out_db (post_chat production vendors_up amb1 alice_says small_db))
     = Response 200 (ConversationsBody
         [\<lparr>summary_id = ''c2'', summary_title = ''Second'', summary_created_at = 2,
           summary_updated_at = 2\<rparr>,
          \<lparr>summary_id = ''c1'', summary_title = ''First'', summary_created_at = 1,
           summary_updated_at = 1\<rparr>])"
  by (simp add: route_defs example_defs)

section \<open>Unregistered models\<close>

text \<open>
  C6. The claim is that a model name absent from the registry reaches no adapter and
  fails as an unknown model. The name \<^verbatim>\<open>constructor\<close> is not a key of the
  registry, and no adapter is entered for it, but the property read finds the
  inherited constructor, so the call fails as an unsupported provider instead.
\<close>

theorem chat_inherited_property:
  "map_of MODELS ''constructor'' = None
   \<and> chat penv net (Some ''constructor'') messages systemPrompt
       = ([], Inl (UnsupportedProvider None))"
  by (simp add: chat_def MODELS_get_def MODELS_def object_prototype_properties_def)

section \<open>Providers without a credential\<close>

text \<open>
  C7. For a registered model whose provider has no API key configured, the router
  enters the adapter, which fails at once with the key-not-configured error; no
  request is sent to either vendor. A chat request naming such a model is not answered
  with 200 and sends no request to a vendor.
\<close>

theorem unconfigured_provider:
  assumes "map_of MODELS model = Some modelConfig"
    and "(provider modelConfig = ''anthropic'' \<and> \<not> truthy (ANTHROPIC_API_KEY penv))
       \<or> (provider modelConfig = ''openai'' \<and> \<not> truthy (OPENAI_API_KEY penv))"
  shows "chat penv net (Some model) messages systemPrompt =
           ([AdapterInvoked (provider modelConfig) messages],
            Inl (ApiKeyNotConfigured
                   (if provider modelConfig = ''anthropic'' then ''Anthropic'' else ''OpenAI'')))
       \<and> (\<forall>request. AnthropicCall request
              \<notin> set (fst (chat penv net (Some model) messages systemPrompt)))
       \<and> (\<forall>request. OpenAICall request
              \<notin> set (fst (chat penv net (Some model) messages systemPrompt)))
       \<and> (body_model req = Some model \<longrightarrow>
            status (out_response (post_chat_handler penv net amb req userId db)) \<noteq> 200
            \<and> (\<forall>request. AnthropicCall request
                  \<notin> set (out_events (post_chat_handler penv net amb req userId db)))
            \<and> (\<forall>request. OpenAICall request
                  \<notin> set (out_events (post_chat_handler penv net amb req userId db))))"
proof -
  have router: "chat penv net (Some model) msgs sp =
           ([AdapterInvoked (provider modelConfig) msgs],
            Inl (ApiKeyNotConfigured
                   (if provider modelConfig = ''anthropic'' then ''Anthropic'' else ''OpenAI'')))"
    for msgs sp
    using chat_unconfigured [OF assms] .
  have handler: "status (out_response (post_chat_handler penv net amb req userId db)) \<noteq> 200
            \<and> (\<forall>request. AnthropicCall request
                  \<notin> set (out_events (post_chat_handler penv net amb req userId db)))
            \<and> (\<forall>request. OpenAICall request
                  \<notin> set (out_events (post_chat_handler penv net amb req userId db)))"
    if "body_model req = Some model"
    using that router post_chat_handler_events_chat [of _ penv net amb req userId db]
      post_chat_handler_ok [of penv net amb req userId db]
    by fastforce
  show ?thesis using router handler by simp
qed

theorem unconfigured_provider_witness:
  "map_of MODELS ''gpt-4o'' \<noteq> None \<and> \<not> truthy (OPENAI_API_KEY production)
   \<and> chat production vendors_up (Some ''gpt-4o'') system_then_user None
       = ([AdapterInvoked ''openai'' system_then_user], Inl (ApiKeyNotConfigured ''OpenAI''))
   \<and> status (out_response (post_chat_handler production vendors_up amb1
         (alice_says\<lparr>body_model := Some ''gpt-4o''\<rparr>) (Some ''alice'') small_db)) \<noteq> 200"
proof -
  have a: "map_of MODELS ''gpt-4o'' =
            Some \<lparr>provider = ''openai'', modelId = ''gpt-4o'',
                  maxTokens = 4096, inputCostPer1k = 0.005, outputCostPer1k = 0.015\<rparr>"
    by (simp add: MODELS_def)
  have b: "(provider \<lparr>provider = ''openai'', modelId = ''gpt-4o'',
                  maxTokens = 4096, inputCostPer1k = 0.005, outputCostPer1k = 0.015\<rparr> = ''anthropic''
             \<and> \<not> truthy (ANTHROPIC_API_KEY production))
       \<or> (provider \<lparr>provider = ''openai'', modelId = ''gpt-4o'',
                  maxTokens = 4096, inputCostPer1k = 0.005, outputCostPer1k = 0.015\<rparr> = ''openai''
             \<and> \<not> truthy (OPENAI_API_KEY production))"
    by (simp add: production_def truthy_def)
  have c: "body_model (alice_says\<lparr>body_model := Some ''gpt-4o''\<rparr>) = Some ''gpt-4o''" by simp
  from unconfigured_provider [OF a b, of vendors_up system_then_user None
      "alice_says\<lparr>body_model := Some ''gpt-4o''\<rparr>" amb1 "Some ''alice''" small_db] a b c
  show ?thesis by (simp add: production_def truthy_def)
qed

section \<open>Round trip through the full conversation\<close>

text \<open>
  C8. After N messages were appended to a conversation, the conversation route returns,
  to its owner, the messages of the conversation in ascending order of their
  timestamps. When the timestamps do not decrease along the insertions, that is the
  order of insertion: the messages the conversation held before, followed by exactly
  the N new ones in the order they were appended.
\<close>

theorem getFullConversation_roundtrip:
  assumes "append_messages db cid news = Inr db'"
    and "select_conversation db cid userId = Some c"
    and "params_id req = cid"
  shows "get_conversation_handler req userId db'
           = Response 200 (ConversationBody c
               (map message_view_of (sort_key msg_created_at
                  (filter (\<lambda>m. msg_conversation_id m = cid) (messages_table db)
                   @ map (stored_row cid) news))))
       \<and> (sorted (map msg_created_at
              (filter (\<lambda>m. msg_conversation_id m = cid) (messages_table db))
            @ map nm_time news)
          \<longrightarrow> get_conversation_handler req userId db'
                = Response 200
                    (ConversationBody c (select_messages db cid @ map returned_view news)))"
proof -
  let ?old = "filter (\<lambda>m. msg_conversation_id m = cid) (messages_table db)"
  have conv: "select_conversation db' cid userId = Some c"
    using append_messages_tables [OF assms(1)] assms(2) by (simp add: select_conversation_def)
  have always: "get_conversation_handler req userId db'
           = Response 200 (ConversationBody c
               (map message_view_of (sort_key msg_created_at (?old @ map (stored_row cid) news))))"
    using conv assms(3) conversation_messages_append [OF assms(1)]
    by (simp add: get_conversation_handler_def select_messages_def)
  have ordered: "get_conversation_handler req userId db'
                = Response 200
                    (ConversationBody c (select_messages db cid @ map returned_view news))"
    if mono: "sorted (map msg_created_at ?old @ map nm_time news)"
  proof -
    have ts: "msg_created_at \<circ> stored_row cid = nm_time"
      by (simp add: fun_eq_iff stored_row_def)
    have view: "message_view_of \<circ> stored_row cid = returned_view"
      by (simp add: fun_eq_iff stored_row_def message_view_of_def returned_view_def)
    from mono have "sorted (map msg_created_at (?old @ map (stored_row cid) news))"
      by (simp add: ts)
    then have all: "sort_key msg_created_at (?old @ map (stored_row cid) news)
                      = ?old @ map (stored_row cid) news"
      by (rule sort_key_id_if_sorted)
    from mono have "sorted (map msg_created_at ?old)"
      by (simp add: sorted_append)
    then have old: "conversation_messages db cid = ?old"
      by (simp add: conversation_messages_def sort_key_id_if_sorted)
    show ?thesis
      using always all old by (simp add: select_messages_def view)
  qed
  show ?thesis using always ordered by blast
qed

theorem getFullConversation_roundtrip_witness:
  "append_messages small_db ''c2'' three_messages
     = Inr (small_db\<lparr>messages_table :=
              messages_table small_db @ map (stored_row ''c2'') three_messages\<rparr>)
   \<and> select_messages small_db ''c2'' = []
   \<and> get_conversation_handler (anonymous\<lparr>params_id := ''c2''\<rparr>) (Some ''alice'')
        (small_db\<lparr>messages_table :=
              messages_table small_db @ map (stored_row ''c2'') three_messages\<rparr>)
       = Response 200 (ConversationBody alice_second (map returned_view three_messages))"
proof -
  have a: "append_messages small_db ''c2'' three_messages
     = Inr (small_db\<lparr>messages_table :=
              messages_table small_db @ map (stored_row ''c2'') three_messages\<rparr>)"
    by (simp add: route_defs example_defs)
  have b: "select_conversation small_db ''c2'' (Some ''alice'') = Some alice_second"
    by (simp add: route_defs example_defs)
  have c: "params_id (anonymous\<lparr>params_id := ''c2''\<rparr>) = ''c2''" by simp
  have d: "sorted (map msg_created_at
           (filter (\<lambda>m. msg_conversation_id m = ''c2'') (messages_table small_db))
         @ map nm_time three_messages)"
    by (simp add: example_defs)
  have e: "select_messages small_db ''c2'' = []"
    by (simp add: route_defs example_defs)
  from getFullConversation_roundtrip [OF a b c] d
  have "get_conversation_handler (anonymous\<lparr>params_id := ''c2''\<rparr>) (Some ''alice'')
        (small_db\<lparr>messages_table :=
              messages_table small_db @ map (stored_row ''c2'') three_messages\<rparr>)
       = Response 200 (ConversationBody alice_second
           (select_messages small_db ''c2'' @ map returned_view three_messages))"
    by blast
  with a e show ?thesis by simp
qed

section \<open>The authentication middleware\<close>

lemma js_or_default_nonempty: "d \<noteq> [] \<Longrightarrow> js_or_default a d \<noteq> []"
  by (simp add: js_or_default_def split: option.splits)

text \<open>
  C9. flexibleAuth takes the identity from the first of session, Clerk, the x-user-id
  header and the userId query parameter that supplies one (a non-empty string). In
  production it answers 401 exactly when none of the four does. Outside production a
  request with none gets the fallback identity, DEV_USER_ID when that is set and
  non-empty and 'dev-user' otherwise. Whenever the handler runs, the identity it
  receives is a non-empty string.
\<close>

theorem flexibleAuth_precedence:
  "(truthy (session_userId req) \<longrightarrow> flexibleAuth penv req = Next (session_userId req))
   \<and> (\<not> truthy (session_userId req) \<and> truthy (auth_userId req)
        \<longrightarrow> flexibleAuth penv req = Next (auth_userId req))
   \<and> (\<not> truthy (session_userId req) \<and> \<not> truthy (auth_userId req)
        \<and> truthy (header_x_user_id req)
        \<longrightarrow> flexibleAuth penv req = Next (header_x_user_id req))
   \<and> (\<not> truthy (session_userId req) \<and> \<not> truthy (auth_userId req)
        \<and> \<not> truthy (header_x_user_id req) \<and> truthy (query_userId req)
        \<longrightarrow> flexibleAuth penv req = Next (query_userId req))
   \<and> (NODE_ENV penv = Some ''production'' \<longrightarrow>
        (flexibleAuth penv req = Responded (Response 401 (ErrorBody ''Unauthorized''))
         \<longleftrightarrow> \<not> truthy (session_userId req) \<and> \<not> truthy (auth_userId req)
            \<and> \<not> truthy (header_x_user_id req) \<and> \<not> truthy (query_userId req)))
   \<and> (NODE_ENV penv \<noteq> Some ''production'' \<and> \<not> truthy (session_userId req)
        \<and> \<not> truthy (auth_userId req) \<and> \<not> truthy (header_x_user_id req)
        \<and> \<not> truthy (query_userId req)
        \<longrightarrow> flexibleAuth penv req
            = Next (Some (if truthy (DEV_USER_ID penv) then the (DEV_USER_ID penv)
                          else ''dev-user'')))
   \<and> (NODE_ENV penv \<noteq> Some ''production'' \<longrightarrow> (\<exists>u. flexibleAuth penv req = Next u))
   \<and> (\<forall>u. flexibleAuth penv req = Next u \<longrightarrow> (\<exists>s. u = Some s \<and> s \<noteq> []))"
  by (auto simp add: flexibleAuth_def js_or_def js_or_default_def truthy_def Let_def
      split: option.splits)

theorem flexibleAuth_precedence_witness:
  "flexibleAuth production (anonymous\<lparr>session_userId := Some ''u1'', query_userId := Some ''u4''\<rparr>)
     = Next (Some ''u1'')
   \<and> flexibleAuth production (anonymous\<lparr>auth_userId := Some ''u2'', header_x_user_id := Some ''u3''\<rparr>)
     = Next (Some ''u2'')
   \<and> flexibleAuth production (anonymous\<lparr>session_userId := Some [], header_x_user_id := Some ''u3'',
        query_userId := Some ''u4''\<rparr>)
     = Next (Some ''u3'')
   \<and> flexibleAuth production (anonymous\<lparr>query_userId := Some ''u4''\<rparr>) = Next (Some ''u4'')
   \<and> flexibleAuth production anonymous = Responded (Response 401 (ErrorBody ''Unauthorized''))
   \<and> flexibleAuth development anonymous = Next (Some ''dev-user'')
   \<and> flexibleAuth (development\<lparr>DEV_USER_ID := Some ''tester''\<rparr>) anonymous = Next (Some ''tester'')"
  using
    flexibleAuth_precedence [of "anonymous\<lparr>session_userId := Some ''u1'', query_userId := Some ''u4''\<rparr>" production]
    flexibleAuth_precedence [of "anonymous\<lparr>auth_userId := Some ''u2'', header_x_user_id := Some ''u3''\<rparr>" production]
    flexibleAuth_precedence [of "anonymous\<lparr>session_userId := Some [], header_x_user_id := Some ''u3'',
        query_userId := Some ''u4''\<rparr>" production]
    flexibleAuth_precedence [of "anonymous\<lparr>query_userId := Some ''u4''\<rparr>" production]
    flexibleAuth_precedence [of anonymous production]
    flexibleAuth_precedence [of anonymous development]
    flexibleAuth_precedence [of anonymous "development\<lparr>DEV_USER_ID := Some ''tester''\<rparr>"]
  by (simp add: production_def development_def anonymous_def truthy_def)

section \<open>Roles sent to Anthropic\<close>

text \<open>
  C10. In every request the router sends to Anthropic, each message has role 'user' or
  'assistant': the list sent has one message for each message the adapter was given,
  in order, with the same content and with role 'user' when the given role is 'user'
  and 'assistant' for any other role. The system prompt travels in the separate
  \<^verbatim>\<open>system\<close> field and adds no message to the list.
\<close>

theorem anthropic_roles:
  assumes "AnthropicCall request \<in> set (fst (chat penv net model_opt messages systemPrompt))"
  shows "(\<forall>m \<in> set (areq_messages request). role m = ''user'' \<or> role m = ''assistant'')
       \<and> length (areq_messages request) = length messages
       \<and> (\<forall>i < length messages.
            content (areq_messages request ! i) = content (messages ! i)
            \<and> role (areq_messages request ! i)
                = (if role (messages ! i) = ''user'' then ''user'' else ''assistant''))
       \<and> areq_system request = js_or_default systemPrompt ''You are a helpful assistant.''"
  using chat_anthropic_request [OF assms] by auto

theorem anthropic_roles_witness:
  "AnthropicCall haiku_request
     \<in> set (fst (chat development vendors_up (Some ''claude-3-haiku'') system_then_user None))
   \<and> map role (areq_messages haiku_request) = [''assistant'', ''user'']
   \<and> map content (areq_messages haiku_request) = map content system_then_user
   \<and> areq_system haiku_request = ''You are a helpful assistant.''"
proof -
  have a: "AnthropicCall haiku_request
     \<in> set (fst (chat development vendors_up (Some ''claude-3-haiku'') system_then_user None))"
    by (simp add: route_defs example_defs)
  from anthropic_roles [OF a] a show ?thesis
    by (simp add: example_defs)
qed

end
